theory Spec2Isabelle
  imports Main "HOL-Library.Word"
begin

unbundle bit_operations_syntax

section \<open>Python values used by \<^verbatim>\<open>twilio_audio_interface.py\<close>\<close>

text \<open>
  Audio is a Python \<^verbatim>\<open>bytes\<close> object: a list of 8-bit words. Python \<^verbatim>\<open>str\<close> is modelled
  by \<^typ>\<open>string\<close>; a \<^typ>\<open>char\<close> stands for the code point of the same number, so the
  model covers the code points 0..255 (code points from 128 on are the non-ASCII ones).
\<close>

type_synonym byte = "8 word"
type_synonym bytes = "byte list"

text \<open>
  The exceptions the module can meet. \<open>BinasciiError\<close> is \<^verbatim>\<open>binascii.Error\<close> (a subclass
  of \<^verbatim>\<open>ValueError\<close>). \<open>OtherException n\<close> stands for an exception of a class \<open>n\<close> that
  derives from \<^verbatim>\<open>Exception\<close> but from none of the classes named here (for instance
  \<^verbatim>\<open>OSError\<close>); \<open>CancelledError\<close> stands for the exceptions that derive from
  \<^verbatim>\<open>BaseException\<close> only, which \<^verbatim>\<open>except Exception\<close> does not catch.
\<close>

datatype exn = AttributeError | KeyError | TypeError | ValueError | BinasciiError
  | WebSocketDisconnect | RuntimeError | OtherException string | CancelledError

fun is_Exception :: "exn \<Rightarrow> bool" where
  "is_Exception CancelledError = False"
| "is_Exception e = True"

text \<open>
  The envelope handed to \<^verbatim>\<open>handle_twilio_message\<close> is the result of \<^verbatim>\<open>json.loads\<close>: a
  JSON value. A Python \<^verbatim>\<open>dict\<close> keeps insertion order, so it is an association list,
  read with \<^const>\<open>map_of\<close>. \<open>JNull\<close> is Python's \<^verbatim>\<open>None\<close>. Numbers are Python
  \<^verbatim>\<open>int\<close>s; floating-point numbers are outside the model.
\<close>

datatype json = JNull | JBool bool | JInt int | JStr string | JArr "json list"
  | JObj "(string \<times> json) list"

text \<open>\<^verbatim>\<open>data.get(key)\<close>: only a dict has the method; a missing key gives \<^verbatim>\<open>None\<close>.\<close>

fun dict_get :: "json \<Rightarrow> string \<Rightarrow> exn + json" where
  "dict_get (JObj kvs) key = Inr (case map_of kvs key of None \<Rightarrow> JNull | Some v \<Rightarrow> v)"
| "dict_get _ key = Inl AttributeError"

text \<open>
  \<^verbatim>\<open>obj[key]\<close> with a \<^verbatim>\<open>str\<close> key: a dict raises \<^verbatim>\<open>KeyError\<close> when the key is missing;
  a list or a str wants an integer index and every other value cannot be subscripted,
  both \<^verbatim>\<open>TypeError\<close>.
\<close>

fun getitem :: "json \<Rightarrow> string \<Rightarrow> exn + json" where
  "getitem (JObj kvs) key = (case map_of kvs key of None \<Rightarrow> Inl KeyError | Some v \<Rightarrow> Inr v)"
| "getitem _ key = Inl TypeError"

text \<open>\<^verbatim>\<open>len(obj)\<close>: defined on str, list and dict.\<close>

fun py_len :: "json \<Rightarrow> exn + nat" where
  "py_len (JStr s) = Inr (length s)"
| "py_len (JArr xs) = Inr (length xs)"
| "py_len (JObj kvs) = Inr (length kvs)"
| "py_len _ = Inl TypeError"

text \<open>The truth value Python gives a JSON value in \<^verbatim>\<open>if self.stream_sid:\<close>.\<close>

fun truthy :: "json \<Rightarrow> bool" where
  "truthy JNull = False"
| "truthy (JBool b) = b"
| "truthy (JInt i) = (i \<noteq> 0)"
| "truthy (JStr s) = (s \<noteq> [])"
| "truthy (JArr xs) = (xs \<noteq> [])"
| "truthy (JObj kvs) = (kvs \<noteq> [])"

text \<open>\<^verbatim>\<open>str(n)\<close> of a non-negative integer and of an integer.\<close>

fun nat_repr :: "nat \<Rightarrow> string" where
  "nat_repr n =
     (if n < 10 then [''0123456789'' ! n]
      else nat_repr (n div 10) @ [''0123456789'' ! (n mod 10)])"

declare nat_repr.simps [simp del]

definition int_repr :: "int \<Rightarrow> string" where
  "int_repr i = (if i < 0 then CHR ''-'' # nat_repr (nat (- i)) else nat_repr (nat i))"

section \<open>The standard library: \<^verbatim>\<open>base64\<close>\<close>

text \<open>
  \<^verbatim>\<open>base64.b64encode\<close> and \<^verbatim>\<open>base64.b64decode\<close> are CPython's, not this repository's;
  they are modelled after \<^verbatim>\<open>binascii.b2a_base64\<close> and \<^verbatim>\<open>binascii.a2b_base64\<close> of
  CPython 3.11 (RFC 4648 alphabet). The ASCII bytes both work on are written as
  \<^typ>\<open>char\<close>s, so \<^verbatim>\<open>.decode("utf-8")\<close> of the encoder's output is the identity.
\<close>

definition table_b2a_base64 :: string where
  "table_b2a_base64 = ''ABCDEFGHIJKLMNOPQRSTUVWXYZabcdefghijklmnopqrstuvwxyz0123456789+/''"

definition BASE64_PAD :: char where
  "BASE64_PAD = CHR ''=''"

definition b2a :: "byte \<Rightarrow> char" where
  "b2a v = table_b2a_base64 ! unat v"

text \<open>
  The encoder takes three bytes to four characters; one or two bytes left over are
  padded with \<open>=\<close>. It has no failure path.
\<close>

fun b64encode :: "bytes \<Rightarrow> string" where
  "b64encode [] = []"
| "b64encode [a] =
     [b2a (drop_bit 2 a), b2a (push_bit 4 (a AND 3)), BASE64_PAD, BASE64_PAD]"
| "b64encode [a, b] =
     [b2a (drop_bit 2 a), b2a (push_bit 4 (a AND 3) OR drop_bit 4 b),
      b2a (push_bit 2 (b AND 15)), BASE64_PAD]"
| "b64encode (a # b # c # rest) =
     [b2a (drop_bit 2 a), b2a (push_bit 4 (a AND 3) OR drop_bit 4 b),
      b2a (push_bit 2 (b AND 15) OR drop_bit 6 c), b2a (c AND 63)] @ b64encode rest"

fun find_index :: "char \<Rightarrow> string \<Rightarrow> nat \<Rightarrow> nat option" where
  "find_index c [] i = None"
| "find_index c (x # xs) i = (if c = x then Some i else find_index c xs (Suc i))"

text \<open>The decoder's table: the index of a character of the alphabet, nothing otherwise.\<close>

definition table_a2b_base64 :: "char \<Rightarrow> byte option" where
  "table_a2b_base64 c = map_option of_nat (find_index c table_b2a_base64 0)"

text \<open>
  The loop of \<^verbatim>\<open>a2b_base64\<close> in its default, non-strict mode. Characters outside the
  alphabet are skipped. A pad counts only once two characters of the current group of
  four are read (\<^verbatim>\<open>quad_pos >= 2 && quad_pos + ++pads >= 4\<close>), and the pad that completes
  the group ends the decoding: what follows is not read. At the end of the input an
  unfinished group is an error (\<^verbatim>\<open>binascii.Error\<close>: incorrect padding, or one character
  more than a multiple of four).
\<close>

fun a2b_loop :: "string \<Rightarrow> nat \<Rightarrow> byte \<Rightarrow> nat \<Rightarrow> bytes \<Rightarrow> exn + bytes" where
  "a2b_loop [] quad_pos leftchar pads bin_data =
     (if quad_pos \<noteq> 0 then Inl BinasciiError else Inr bin_data)"
| "a2b_loop (this_ch # rest) quad_pos leftchar pads bin_data =
     (if this_ch = BASE64_PAD then
        (if quad_pos \<ge> 2 then
           (if quad_pos + (pads + 1) \<ge> 4 then Inr bin_data
            else a2b_loop rest quad_pos leftchar (pads + 1) bin_data)
         else a2b_loop rest quad_pos leftchar pads bin_data)
      else
        (case table_a2b_base64 this_ch of
           None \<Rightarrow> a2b_loop rest quad_pos leftchar pads bin_data
         | Some v \<Rightarrow>
             (if quad_pos = 0 then a2b_loop rest 1 v 0 bin_data
              else if quad_pos = 1 then
                a2b_loop rest 2 (v AND 15) 0 (bin_data @ [push_bit 2 leftchar OR drop_bit 4 v])
              else if quad_pos = 2 then
                a2b_loop rest 3 (v AND 3) 0 (bin_data @ [push_bit 4 leftchar OR drop_bit 2 v])
              else
                a2b_loop rest 0 0 0 (bin_data @ [push_bit 6 leftchar OR v]))))"

definition a2b_base64 :: "string \<Rightarrow> exn + bytes" where
  "a2b_base64 s = a2b_loop s 0 0 0 []"

text \<open>
  \<^verbatim>\<open>base64.b64decode(s)\<close>: a str is first encoded as ASCII (\<^verbatim>\<open>ValueError\<close> when it has
  a non-ASCII character); a list or a dict is not bytes-like (\<^verbatim>\<open>TypeError\<close>), nor is any
  other JSON value.
\<close>

fun b64decode :: "json \<Rightarrow> exn + bytes" where
  "b64decode (JStr s) =
     (if list_all (\<lambda>c. of_char c < (128 :: nat)) s then a2b_base64 s else Inl ValueError)"
| "b64decode _ = Inl TypeError"

section \<open>The standard library: \<^verbatim>\<open>json.dumps\<close>\<close>

text \<open>
  \<^verbatim>\<open>json.dumps\<close> with its defaults: the separators are \<^verbatim>\<open>", "\<close> and \<^verbatim>\<open>": "\<close>, and
  \<^verbatim>\<open>ensure_ascii\<close> escapes the double quote, the backslash and every character outside
  the printable ASCII range.
\<close>

definition hex_digit :: "nat \<Rightarrow> char" where
  "hex_digit n = ''0123456789abcdef'' ! n"

definition escape_char :: "char \<Rightarrow> string" where
  "escape_char c =
     (let n = (of_char c :: nat) in
      if n = 0x22 then [CHR 0x5C, CHR 0x22]
      else if n = 0x5C then [CHR 0x5C, CHR 0x5C]
      else if n = 0x0A then [CHR 0x5C, CHR ''n'']
      else if n = 0x0D then [CHR 0x5C, CHR ''r'']
      else if n = 0x09 then [CHR 0x5C, CHR ''t'']
      else if n = 0x08 then [CHR 0x5C, CHR ''b'']
      else if n = 0x0C then [CHR 0x5C, CHR ''f'']
      else if 0x20 \<le> n \<and> n \<le> 0x7E then [c]
      else [CHR 0x5C, CHR ''u'', CHR ''0'', CHR ''0'', hex_digit (n div 16), hex_digit (n mod 16)])"

definition encode_basestring_ascii :: "string \<Rightarrow> string" where
  "encode_basestring_ascii s = CHR 0x22 # concat (map escape_char s) @ [CHR 0x22]"

fun join :: "string \<Rightarrow> string list \<Rightarrow> string" where
  "join sep [] = []"
| "join sep [x] = x"
| "join sep (x # y # ys) = x @ sep @ join sep (y # ys)"

fun json_dumps :: "json \<Rightarrow> string" where
  "json_dumps JNull = ''null''"
| "json_dumps (JBool b) = (if b then ''true'' else ''false'')"
| "json_dumps (JInt i) = int_repr i"
| "json_dumps (JStr s) = encode_basestring_ascii s"
| "json_dumps (JArr xs) = ''['' @ join '', '' (map json_dumps xs) @ '']''"
| "json_dumps (JObj kvs) =
     ''{'' @ join '', '' (map (\<lambda>(k, v). encode_basestring_ascii k @ '': '' @ json_dumps v) kvs)
       @ ''}''"

section \<open>The adapter and its surroundings\<close>

text \<open>
  The consumer registered by \<^verbatim>\<open>start\<close> is a Python callable: it has an identity, and a
  call of it may raise. A callable is true in a condition.
\<close>

record callback =
  cb_name :: nat
  cb_raises :: "bytes \<Rightarrow> exn option"

text \<open>
  The fields of \<^verbatim>\<open>TwilioAudioInterface\<close> that the object owns. \<^verbatim>\<open>self.websocket\<close> and
  \<^verbatim>\<open>self.loop\<close> refer to objects outside it, which are part of the \<open>world\<close> below.
\<close>

record TwilioAudioInterface =
  input_callback :: "callback option"
  stream_sid :: json

datatype WebSocketState = CONNECTING | CONNECTED | DISCONNECTED | RESPONSE

datatype level = DEBUG | INFO | WARNING | ERROR

text \<open>
  A coroutine object handed to \<^verbatim>\<open>asyncio.run_coroutine_threadsafe\<close>: its body has not run
  yet, and it reads \<^verbatim>\<open>self\<close> only when the event loop runs it.
\<close>

datatype coroutine = Send_audio_to_twilio bytes | Send_clear_message_to_twilio

text \<open>
  What the adapter acts on and what an observer sees:
  \<^item> \<open>application_state\<close>: \<^verbatim>\<open>self.websocket.application_state\<close>;
  \<^item> \<open>wire\<close>: the texts \<^verbatim>\<open>websocket.send_text\<close> has delivered, oldest first;
  \<^item> \<open>pending\<close>: the coroutines scheduled on \<^verbatim>\<open>self.loop\<close> and not yet run;
  \<^item> \<open>futures\<close>: for each coroutine the loop has run, the exception it ended with, if
    any; this is what the future returned by \<^verbatim>\<open>run_coroutine_threadsafe\<close> holds, and
    \<^verbatim>\<open>output\<close> and \<^verbatim>\<open>interrupt\<close> drop that future;
  \<^item> \<open>logged\<close>: the calls of \<^verbatim>\<open>logger\<close>, each with its level and its message as the
    source writes it (the values an f-string interpolates are not rendered;
    \<^verbatim>\<open>logger.exception\<close> logs at level \<open>ERROR\<close>);
  \<^item> \<open>stdout\<close>: the lines printed;
  \<^item> \<open>invoked\<close>: the calls of a registered consumer, with the bytes it was given.
\<close>

record world =
  application_state :: WebSocketState
  wire :: "string list"
  pending :: "coroutine list"
  futures :: "exn option list"
  logged :: "(level \<times> string) list"
  stdout :: "string list"
  invoked :: "(nat \<times> bytes) list"

definition logger :: "level \<Rightarrow> string \<Rightarrow> world \<Rightarrow> world" where
  "logger lvl msg w = w\<lparr>logged := logged w @ [(lvl, msg)]\<rparr>"

definition print :: "string \<Rightarrow> world \<Rightarrow> world" where
  "print line w = w\<lparr>stdout := stdout w @ [line]\<rparr>"

text \<open>
  \<^verbatim>\<open>await self.websocket.send_text(text)\<close>. Whether the transport fails is not decided by
  this module: \<open>fault\<close> says what this call of \<^verbatim>\<open>send_text\<close> raises, if anything. A call
  that raises delivers nothing.
\<close>

definition send_text :: "exn option \<Rightarrow> string \<Rightarrow> world \<Rightarrow> exn option \<times> world" where
  "send_text fault text w =
     (case fault of None \<Rightarrow> (None, w\<lparr>wire := wire w @ [text]\<rparr>) | Some e \<Rightarrow> (Some e, w))"

subsection \<open>The methods called by the speech engine\<close>

definition init :: TwilioAudioInterface where
  "init = \<lparr>input_callback = None, stream_sid = JNull\<rparr>"

definition start :: "callback \<Rightarrow> TwilioAudioInterface \<Rightarrow> world \<Rightarrow> TwilioAudioInterface \<times> world" where
  "start cb self w =
     (self\<lparr>input_callback := Some cb\<rparr>, print ''AudioInterface: start called'' w)"

definition stop :: "TwilioAudioInterface \<Rightarrow> TwilioAudioInterface" where
  "stop self = self\<lparr>input_callback := None, stream_sid := JNull\<rparr>"

text \<open>
  \<^verbatim>\<open>output\<close> (here \<open>output_audio\<close>, as \<open>output\<close> is a keyword of Isabelle) and
  \<^verbatim>\<open>interrupt\<close> create the coroutine object and hand it to the loop; the loop is taken
  to be open, so the scheduling itself does not raise.
\<close>

definition output_audio :: "bytes \<Rightarrow> world \<Rightarrow> world" where
  "output_audio audio w = w\<lparr>pending := pending w @ [Send_audio_to_twilio audio]\<rparr>"

definition interrupt :: "world \<Rightarrow> world" where
  "interrupt w = w\<lparr>pending := pending w @ [Send_clear_message_to_twilio]\<rparr>"

subsection \<open>The coroutines\<close>

text \<open>
  The result of a coroutine is the exception that leaves it, if any, and the world
  after it. The three \<^verbatim>\<open>except\<close> clauses of \<^verbatim>\<open>send_audio_to_twilio\<close> are tried in the
  source's order.
\<close>

definition send_audio_to_twilio ::
  "exn option \<Rightarrow> TwilioAudioInterface \<Rightarrow> bytes \<Rightarrow> world \<Rightarrow> exn option \<times> world" where
  "send_audio_to_twilio fault self audio w =
     (if truthy (stream_sid self) then
        (let audio_payload = b64encode audio;
             audio_delta = JObj [(''event'', JStr ''media''),
                                 (''streamSid'', stream_sid self),
                                 (''media'', JObj [(''payload'', JStr audio_payload)])];
             w1 = logger INFO ''Preparing to send audio. Stream SID: {self.stream_sid}'' w;
             w2 = logger DEBUG ''Audio payload size (bytes before encoding): {len(audio)}'' w1;
             w3 = logger DEBUG ''Base64 audio payload size (chars): {len(audio_payload)}'' w2
         in if application_state w3 = CONNECTED then
              (case send_text fault (json_dumps audio_delta) w3 of
                 (None, w4) \<Rightarrow> (None, logger INFO ''Audio data sent successfully to Twilio.'' w4)
               | (Some e, w4) \<Rightarrow>
                   if e = WebSocketDisconnect then
                     (None, logger ERROR
                        ''WebSocketDisconnect: Connection closed while trying to send audio.'' w4)
                   else if e = RuntimeError then
                     (None, logger ERROR ''RuntimeError: {e}'' w4)
                   else if is_Exception e then
                     (None, logger ERROR ''Unexpected error while sending audio: {e}'' w4)
                   else (Some e, w4))
            else (None, logger WARNING ''WebSocket not connected. Skipping audio send.'' w3))
      else (None, logger WARNING ''No stream SID available. Audio not sent.'' w))"

definition send_clear_message_to_twilio ::
  "exn option \<Rightarrow> TwilioAudioInterface \<Rightarrow> world \<Rightarrow> exn option \<times> world" where
  "send_clear_message_to_twilio fault self w =
     (if truthy (stream_sid self) then
        (let clear_message = JObj [(''event'', JStr ''clear''), (''streamSid'', stream_sid self)]
         in if application_state w = CONNECTED then
              (case send_text fault (json_dumps clear_message) w of
                 (None, w1) \<Rightarrow> (None, w1)
               | (Some e, w1) \<Rightarrow>
                   if e = WebSocketDisconnect \<or> e = RuntimeError then (None, w1)
                   else (Some e, w1))
            else (None, w))
      else (None, w))"

subsection \<open>The inbound handler\<close>

text \<open>
  \<^verbatim>\<open>handle_twilio_message\<close> has no \<^verbatim>\<open>try\<close>: an exception of a lookup, of \<^verbatim>\<open>len\<close>, of
  \<^verbatim>\<open>b64decode\<close> or of the consumer leaves it. The result is that exception, if any, the
  object and the world.
\<close>

definition handle_twilio_message ::
  "json \<Rightarrow> TwilioAudioInterface \<Rightarrow> world \<Rightarrow> exn option \<times> TwilioAudioInterface \<times> world" where
  "handle_twilio_message data self w =
     (case dict_get data ''event'' of
        Inl e \<Rightarrow> (Some e, self, w)
      | Inr event_type \<Rightarrow>
          if event_type = JStr ''start'' then
            (case getitem data ''start'' of
               Inl e \<Rightarrow> (Some e, self, w)
             | Inr s \<Rightarrow>
                 (case getitem s ''streamSid'' of
                    Inl e \<Rightarrow> (Some e, self, w)
                  | Inr sid \<Rightarrow> (None, self\<lparr>stream_sid := sid\<rparr>, w)))
          else if event_type = JStr ''media'' \<and> input_callback self \<noteq> None then
            (case getitem data ''media'' of
               Inl e \<Rightarrow> (Some e, self, w)
             | Inr m \<Rightarrow>
                 (case getitem m ''payload'' of
                    Inl e \<Rightarrow> (Some e, self, w)
                  | Inr payload \<Rightarrow>
                      (case py_len payload of
                         Inl e \<Rightarrow> (Some e, self, w)
                       | Inr n \<Rightarrow>
                           (let w1 = print (''Media received: '' @ nat_repr n) w in
                            case b64decode payload of
                              Inl e \<Rightarrow> (Some e, self, w1)
                            | Inr audio_data \<Rightarrow>
                                (let w2 = print (''Audio frame size: ''
                                            @ nat_repr (length audio_data) @ '' bytes'') w1;
                                     cb = the (input_callback self)
                                 in (cb_raises cb audio_data, self,
                                     w2\<lparr>invoked := invoked w2 @ [(cb_name cb, audio_data)]\<rparr>))))))
          else (None, self, w))"

subsection \<open>The event loop and sequences of events\<close>

text \<open>
  The loop runs the coroutines in the order they were scheduled. The only suspension
  point of a coroutine is its \<^verbatim>\<open>send_text\<close>, after all its reads of \<^verbatim>\<open>self\<close> and of the
  connection state, so a coroutine is run in one step.
\<close>

fun run_coroutine ::
  "exn option \<Rightarrow> TwilioAudioInterface \<Rightarrow> coroutine \<Rightarrow> world \<Rightarrow> exn option \<times> world" where
  "run_coroutine fault self (Send_audio_to_twilio audio) w = send_audio_to_twilio fault self audio w"
| "run_coroutine fault self Send_clear_message_to_twilio w =
     send_clear_message_to_twilio fault self w"

definition run_next :: "exn option \<Rightarrow> TwilioAudioInterface \<Rightarrow> world \<Rightarrow> world" where
  "run_next fault self w =
     (case pending w of
        [] \<Rightarrow> w
      | c # cs \<Rightarrow>
          (case run_coroutine fault self c (w\<lparr>pending := cs\<rparr>) of
             (r, w1) \<Rightarrow> w1\<lparr>futures := futures w1 @ [r]\<rparr>))"

text \<open>
  What can happen to an adapter: a call of one of its four methods, an envelope
  handed to \<^verbatim>\<open>handle_twilio_message\<close>, the loop running its next coroutine (with what
  \<^verbatim>\<open>send_text\<close> does should it be reached), and the transport changing its state. An
  exception that leaves \<^verbatim>\<open>handle_twilio_message\<close> goes to its caller; the object stays
  as the handler left it.
\<close>

datatype event = Start callback | Stop | Output bytes | Interrupt | Receive json
  | RunNext "exn option" | Transport WebSocketState

fun step :: "event \<Rightarrow> TwilioAudioInterface \<times> world \<Rightarrow> TwilioAudioInterface \<times> world" where
  "step (Start cb) (self, w) = start cb self w"
| "step Stop (self, w) = (stop self, w)"
| "step (Output audio) (self, w) = (self, output_audio audio w)"
| "step Interrupt (self, w) = (self, interrupt w)"
| "step (Receive data) (self, w) = snd (handle_twilio_message data self w)"
| "step (RunNext fault) (self, w) = (self, run_next fault self w)"
| "step (Transport st) (self, w) = (self, w\<lparr>application_state := st\<rparr>)"

fun run :: "event list \<Rightarrow> TwilioAudioInterface \<times> world \<Rightarrow> TwilioAudioInterface \<times> world" where
  "run [] s = s"
| "run (ev # evs) s = run evs (step ev s)"

text \<open>An envelope whose \<^verbatim>\<open>event\<close> is \<^verbatim>\<open>"start"\<close>, and an event that hands one in.\<close>

definition is_start_envelope :: "json \<Rightarrow> bool" where
  "is_start_envelope data = (dict_get data ''event'' = Inr (JStr ''start''))"

fun receives_start :: "event \<Rightarrow> bool" where
  "receives_start (Receive data) = is_start_envelope data"
| "receives_start _ = False"

fun registers :: "event \<Rightarrow> bool" where
  "registers (Start cb) = True"
| "registers _ = False"

text \<open>
  Two fixtures for concrete runs: a connected transport on which nothing has happened
  yet, and a consumer that returns normally.
\<close>

definition quiet :: world where
  "quiet = \<lparr>application_state = CONNECTED, wire = [], pending = [], futures = [], logged = [],
            stdout = [], invoked = []\<rparr>"

definition consumer :: "nat \<Rightarrow> callback" where
  "consumer n = \<lparr>cb_name = n, cb_raises = (\<lambda>audio. None)\<rparr>"

section \<open>The codec round trip\<close>

lemma and3: "(a :: byte) AND 3 = take_bit 2 a"
  using take_bit_eq_mask [of 2 a] by (simp add: mask_eq_exp_minus_1)

lemma and15: "(a :: byte) AND 15 = take_bit 4 a"
  using take_bit_eq_mask [of 4 a] by (simp add: mask_eq_exp_minus_1)

lemma and63: "(a :: byte) AND 63 = take_bit 6 a"
  using take_bit_eq_mask [of 6 a] by (simp add: mask_eq_exp_minus_1)

lemma Suc_Suc_diff2: "2 \<le> n \<Longrightarrow> Suc (Suc (n - 2)) = n"
  by simp

lemma first_byte:
  "push_bit 2 (drop_bit 2 (a :: byte)) OR drop_bit 4 (push_bit 4 (a AND 3) OR drop_bit 4 b) = a"
  unfolding and3
proof (rule bit_word_eqI)
  fix n
  assume "n < LENGTH(8)"
  then show "bit (push_bit 2 (drop_bit 2 a) OR drop_bit 4 (push_bit 4 (take_bit 2 a) OR drop_bit 4 b)) n
    = bit a n"
    by (cases "2 \<le> n") (auto simp add: bit_simps Suc_Suc_diff2)
qed

lemma second_byte:
  "push_bit 4 ((push_bit 4 (a AND 3) OR drop_bit 4 b) AND 15)
     OR drop_bit 2 (push_bit 2 (b AND 15) OR drop_bit 6 c) = (b :: byte)"
  unfolding and3 and15
  by (rule bit_word_eqI) (auto simp add: bit_simps)

lemma third_byte:
  "push_bit 6 ((push_bit 2 (b AND 15) OR drop_bit 6 c) AND 3) OR (c AND 63) = (c :: byte)"
  unfolding and3 and15 and63
  by (rule bit_word_eqI) (auto simp add: bit_simps)

lemma first_byte_last:
  "push_bit 2 (drop_bit 2 (a :: byte)) OR drop_bit 4 (push_bit 4 (a AND 3)) = a"
  using first_byte [of a 0] by simp

lemma second_byte_last:
  "push_bit 4 ((push_bit 4 (a AND 3) OR drop_bit 4 b) AND 15) OR drop_bit 2 (push_bit 2 (b AND 15))
     = (b :: byte)"
  using second_byte [of a b 0] by simp

lemma find_index_nth:
  "distinct xs \<Longrightarrow> i < length xs \<Longrightarrow> find_index (xs ! i) xs k = Some (k + i)"
proof (induction xs arbitrary: i k)
  case Nil
  then show ?case by simp
next
  case (Cons x xs)
  show ?case
  proof (cases i)
    case 0
    then show ?thesis by simp
  next
    case (Suc j)
    with Cons.prems have "xs ! j \<noteq> x" and "j < length xs" and "distinct xs"
      by auto
    with Cons.IH [of j "Suc k"] Suc show ?thesis by simp
  qed
qed

lemma distinct_table: "distinct table_b2a_base64"
  by (simp add: table_b2a_base64_def)

lemma length_table: "length table_b2a_base64 = 64"
  by (simp add: table_b2a_base64_def)

lemma pad_not_in_table: "BASE64_PAD \<notin> set table_b2a_base64"
  by (simp add: table_b2a_base64_def BASE64_PAD_def)

lemma table_ascii: "\<forall>c \<in> set table_b2a_base64. of_char c < (128 :: nat)"
  by (simp add: table_b2a_base64_def)

lemma a2b_b2a: "unat v < 64 \<Longrightarrow> table_a2b_base64 (b2a v) = Some v"
  using find_index_nth [OF distinct_table, of "unat v" 0]
  by (simp add: table_a2b_base64_def b2a_def length_table)

lemma b2a_in_table: "unat v < 64 \<Longrightarrow> b2a v \<in> set table_b2a_base64"
  unfolding b2a_def by (rule nth_mem) (simp add: length_table)

lemma b2a_not_pad: "unat v < 64 \<Longrightarrow> b2a v \<noteq> BASE64_PAD"
  using pad_not_in_table b2a_in_table [of v] by metis

lemma b2a_ascii: "unat v < 64 \<Longrightarrow> of_char (b2a v) < (128 :: nat)"
  using table_ascii b2a_in_table [of v] by blast

lemma sextet: "take_bit 6 (v :: byte) = v \<Longrightarrow> unat v < 64"
proof -
  assume "take_bit 6 v = v"
  then have "unat v = unat (take_bit 6 v)" by simp
  also have "\<dots> = take_bit 6 (unat v)" by (simp add: unsigned_take_bit_eq)
  also have "\<dots> < 2 ^ 6" by (rule take_bit_nat_less_exp)
  finally show ?thesis by simp
qed

lemma s0: "unat (drop_bit 2 (a :: byte)) < 64"
  by (rule sextet, rule bit_word_eqI) (auto simp add: bit_simps dest: bit_imp_le_length)

lemma s1: "unat (push_bit 4 ((a :: byte) AND 3) OR drop_bit 4 b) < 64"
  unfolding and3
  by (rule sextet, rule bit_word_eqI) (auto simp add: bit_simps dest: bit_imp_le_length)

lemma s1_last: "unat (push_bit 4 ((a :: byte) AND 3)) < 64"
  using s1 [of a 0] by simp

lemma s2: "unat (push_bit 2 ((b :: byte) AND 15) OR drop_bit 6 c) < 64"
  unfolding and15
  by (rule sextet, rule bit_word_eqI) (auto simp add: bit_simps dest: bit_imp_le_length)

lemma s2_last: "unat (push_bit 2 ((b :: byte) AND 15)) < 64"
  using s2 [of b 0] by simp

lemma s3: "unat ((c :: byte) AND 63) < 64"
  unfolding and63
  by (rule sextet, rule bit_word_eqI) (auto simp add: bit_simps dest: bit_imp_le_length)

lemma loop_quad:
  assumes "unat v0 < 64" "unat v1 < 64" "unat v2 < 64" "unat v3 < 64"
  shows "a2b_loop (b2a v0 # b2a v1 # b2a v2 # b2a v3 # cs) 0 l p acc
     = a2b_loop cs 0 0 0
         (acc @ [push_bit 2 v0 OR drop_bit 4 v1, push_bit 4 (v1 AND 15) OR drop_bit 2 v2,
                 push_bit 6 (v2 AND 3) OR v3])"
  using assms by (simp add: a2b_b2a b2a_not_pad)

lemma loop_pad1:
  assumes "unat v0 < 64" "unat v1 < 64" "unat v2 < 64"
  shows "a2b_loop [b2a v0, b2a v1, b2a v2, BASE64_PAD] 0 l p acc
     = Inr (acc @ [push_bit 2 v0 OR drop_bit 4 v1, push_bit 4 (v1 AND 15) OR drop_bit 2 v2])"
  using assms by (simp add: a2b_b2a b2a_not_pad)

lemma loop_pad2:
  assumes "unat v0 < 64" "unat v1 < 64"
  shows "a2b_loop [b2a v0, b2a v1, BASE64_PAD, BASE64_PAD] 0 l p acc
     = Inr (acc @ [push_bit 2 v0 OR drop_bit 4 v1])"
  using assms by (simp add: a2b_b2a b2a_not_pad)

lemma loop_encode: "a2b_loop (b64encode bs) 0 l p acc = Inr (acc @ bs)"
proof (induction bs arbitrary: l p acc rule: b64encode.induct)
  case 1
  then show ?case by simp
next
  case (2 a)
  show ?case
    by (simp only: b64encode.simps loop_pad2 [OF s0 s1_last] first_byte_last)
next
  case (3 a b)
  show ?case
    by (simp only: b64encode.simps loop_pad1 [OF s0 s1 s2_last] first_byte second_byte_last)
next
  case (4 a b c rest)
  have "a2b_loop (b64encode (a # b # c # rest)) 0 l p acc
      = a2b_loop (b64encode rest) 0 0 0 (acc @ [a, b, c])"
    by (simp only: b64encode.simps append_Cons append_Nil loop_quad [OF s0 s1 s2 s3]
        first_byte second_byte third_byte)
  then show ?case
    by (simp only: "4.IH" append_assoc append_Cons append_Nil)
qed

lemma b64encode_ascii: "list_all (\<lambda>c. of_char c < (128 :: nat)) (b64encode bs)"
proof (induction bs rule: b64encode.induct)
  case 1
  then show ?case by simp
next
  case (2 a)
  show ?case
    by (simp only: b64encode.simps list.pred_inject b2a_ascii [OF s0] b2a_ascii [OF s1_last])
      (simp add: BASE64_PAD_def)
next
  case (3 a b)
  show ?case
    by (simp only: b64encode.simps list.pred_inject b2a_ascii [OF s0] b2a_ascii [OF s1]
        b2a_ascii [OF s2_last])
      (simp add: BASE64_PAD_def)
next
  case (4 a b c rest)
  then show ?case
    by (simp only: b64encode.simps list.pred_inject list_all_append b2a_ascii [OF s0]
        b2a_ascii [OF s1] b2a_ascii [OF s2] b2a_ascii [OF s3] simp_thms)
qed

section \<open>Evaluations and invariants\<close>

lemma b64_AQI: "b64encode [1, 2] = ''AQI=''"
  by code_simp

lemma media_text:
  "json_dumps (JObj [(''event'', JStr ''media''), (''streamSid'', JStr ''CA123''),
                     (''media'', JObj [(''payload'', JStr ''AQI='')])])
   = ''{\"event\": \"media\", \"streamSid\": \"CA123\", \"media\": {\"payload\": \"AQI=\"}}''"
  by code_simp

lemma clear_text:
  "json_dumps (JObj [(''event'', JStr ''clear''), (''streamSid'', JStr ''CA123'')])
   = ''{\"event\": \"clear\", \"streamSid\": \"CA123\"}''"
  by code_simp

lemma decode_bad: "b64decode (JStr ''not-valid-base64!'') = Inl BinasciiError"
  by code_simp

lemma decode_lenient: "b64decode (JStr ''AQI=!!'') = Inr [1, 2]"
  by code_simp

lemmas world_ops = logger_def print_def send_text_def output_audio_def interrupt_def

lemma coroutine_no_stream:
  "\<not> truthy (stream_sid self) \<Longrightarrow> wire (snd (run_coroutine fault self c w)) = wire w"
  by (cases c) (simp_all add: send_audio_to_twilio_def send_clear_message_to_twilio_def world_ops)

lemma coroutine_invoked: "invoked (snd (run_coroutine fault self c w)) = invoked w"
  by (cases c)
    (auto simp add: send_audio_to_twilio_def send_clear_message_to_twilio_def world_ops Let_def
      split: option.splits)

lemma run_next_no_stream:
  "\<not> truthy (stream_sid self) \<Longrightarrow> wire (run_next fault self w) = wire w"
proof (cases "pending w")
  case Nil
  then show ?thesis by (simp add: run_next_def)
next
  case (Cons c cs)
  assume "\<not> truthy (stream_sid self)"
  then have "wire (snd (run_coroutine fault self c (w\<lparr>pending := cs\<rparr>))) = wire w"
    using coroutine_no_stream [of self fault c "w\<lparr>pending := cs\<rparr>"] by simp
  with Cons show ?thesis
    by (simp add: run_next_def case_prod_beta)
qed

lemma run_next_invoked: "invoked (run_next fault self w) = invoked w"
proof (cases "pending w")
  case Nil
  then show ?thesis by (simp add: run_next_def)
next
  case (Cons c cs)
  have "invoked (snd (run_coroutine fault self c (w\<lparr>pending := cs\<rparr>))) = invoked w"
    using coroutine_invoked [of fault self c "w\<lparr>pending := cs\<rparr>"] by simp
  with Cons show ?thesis
    by (simp add: run_next_def case_prod_beta)
qed

lemma step_keeps_no_stream:
  assumes "stream_sid self = JNull" and "\<not> receives_start ev"
  shows "stream_sid (fst (step ev (self, w))) = JNull \<and> wire (snd (step ev (self, w))) = wire w"
proof (cases ev)
  case (Start cb)
  with assms show ?thesis by (simp add: start_def world_ops)
next
  case Stop
  then show ?thesis by (simp add: stop_def)
next
  case (Output audio)
  with assms show ?thesis by (simp add: world_ops)
next
  case Interrupt
  with assms show ?thesis by (simp add: world_ops)
next
  case (Receive data)
  with assms have "dict_get data ''event'' \<noteq> Inr (JStr ''start'')"
    by (simp add: is_start_envelope_def)
  with assms Receive show ?thesis
    by (auto simp add: handle_twilio_message_def world_ops Let_def split: sum.splits)
next
  case (RunNext fault)
  with assms show ?thesis by (simp add: run_next_no_stream)
next
  case (Transport st)
  with assms show ?thesis by simp
qed

lemma run_keeps_no_stream:
  "stream_sid self = JNull \<Longrightarrow> \<forall>ev \<in> set evs. \<not> receives_start ev \<Longrightarrow>
   stream_sid (fst (run evs (self, w))) = JNull \<and> wire (snd (run evs (self, w))) = wire w"
proof (induction evs arbitrary: self w)
  case Nil
  then show ?case by simp
next
  case (Cons ev evs)
  obtain self1 w1 where s: "step ev (self, w) = (self1, w1)"
    by (cases "step ev (self, w)")
  from Cons.prems have "stream_sid self1 = JNull" and "wire w1 = wire w"
    using step_keeps_no_stream [of self ev w] s by simp_all
  with Cons.IH [of self1 w1] Cons.prems s show ?case by simp
qed

lemma step_keeps_no_consumer:
  assumes "input_callback self = None" and "\<not> registers ev"
  shows "input_callback (fst (step ev (self, w))) = None
    \<and> invoked (snd (step ev (self, w))) = invoked w"
proof (cases ev)
  case (Start cb)
  with assms show ?thesis by simp
next
  case Stop
  then show ?thesis by (simp add: stop_def)
next
  case (Output audio)
  with assms show ?thesis by (simp add: world_ops)
next
  case Interrupt
  with assms show ?thesis by (simp add: world_ops)
next
  case (Receive data)
  with assms show ?thesis
    by (auto simp add: handle_twilio_message_def world_ops Let_def split: sum.splits)
next
  case (RunNext fault)
  with assms show ?thesis by (simp add: run_next_invoked)
next
  case (Transport st)
  with assms show ?thesis by simp
qed

lemma run_keeps_no_consumer:
  "input_callback self = None \<Longrightarrow> \<forall>ev \<in> set evs. \<not> registers ev \<Longrightarrow>
   input_callback (fst (run evs (self, w))) = None
     \<and> invoked (snd (run evs (self, w))) = invoked w"
proof (induction evs arbitrary: self w)
  case Nil
  then show ?case by simp
next
  case (Cons ev evs)
  obtain self1 w1 where s: "step ev (self, w) = (self1, w1)"
    by (cases "step ev (self, w)")
  from Cons.prems have "input_callback self1 = None" and "invoked w1 = invoked w"
    using step_keeps_no_consumer [of self ev w] s by simp_all
  with Cons.IH [of self1 w1] Cons.prems s show ?case by simp
qed

lemma b64decode_Inr_str: "b64decode payload = Inr audio \<Longrightarrow> \<exists>s. payload = JStr s"
  by (cases payload) simp_all

lemma restart_sends:
  "truthy sid \<Longrightarrow>
   wire (snd (run [Receive (JObj [(''event'', JStr ''start''),
                                  (''start'', JObj [(''streamSid'', sid)])]),
                   Output audio, RunNext None]
               (self, w\<lparr>application_state := CONNECTED, pending := []\<rparr>)))
   = wire w @ [json_dumps (JObj [(''event'', JStr ''media''), (''streamSid'', sid),
                                 (''media'', JObj [(''payload'', JStr (b64encode audio))])])]"
  by (simp add: handle_twilio_message_def run_next_def send_audio_to_twilio_def world_ops
      del: json_dumps.simps b64encode.simps)


section \<open>The claims\<close>

text \<open>
  C1 (Scenario A). Whatever the adapter's state, with the transport connected and no
  coroutine waiting on the loop: the start envelope with \<^verbatim>\<open>streamSid\<close> \<^verbatim>\<open>"CA123"\<close> is
  handled without an exception, and after it a call \<^verbatim>\<open>output(b"\x01\x02")\<close>, once the
  loop has run the scheduled coroutine and \<^verbatim>\<open>send_text\<close> has succeeded, has put exactly
  one frame on the wire: the serialisation of the JSON object with \<^verbatim>\<open>event\<close>
  \<^verbatim>\<open>"media"\<close>, the \<^verbatim>\<open>streamSid\<close> of the start envelope and the payload \<^verbatim>\<open>"AQI="\<close>, the
  base64 encoding of the two bytes. \<^verbatim>\<open>json.dumps\<close> writes that object with a space after
  each colon and comma.
\<close>

theorem scenario_A_media_frame:
  "fst (handle_twilio_message
          (JObj [(''event'', JStr ''start''), (''start'', JObj [(''streamSid'', JStr ''CA123'')])])
          self (w\<lparr>application_state := CONNECTED, pending := []\<rparr>)) = None
   \<and> wire (snd (run [Receive (JObj [(''event'', JStr ''start''),
                                     (''start'', JObj [(''streamSid'', JStr ''CA123'')])]),
                     Output [1, 2], RunNext None]
                 (self, w\<lparr>application_state := CONNECTED, pending := []\<rparr>)))
     = wire w @ [json_dumps (JObj [(''event'', JStr ''media''), (''streamSid'', JStr ''CA123''),
                                   (''media'', JObj [(''payload'', JStr ''AQI='')])])]
   \<and> json_dumps (JObj [(''event'', JStr ''media''), (''streamSid'', JStr ''CA123''),
                        (''media'', JObj [(''payload'', JStr ''AQI='')])])
     = ''{\"event\": \"media\", \"streamSid\": \"CA123\", \"media\": {\"payload\": \"AQI=\"}}''"
  by (simp add: handle_twilio_message_def run_next_def send_audio_to_twilio_def world_ops
      b64_AQI media_text del: json_dumps.simps b64encode.simps)

text \<open>
  C2 (consumer gating). While no consumer is registered, a media envelope, well formed
  or not, is dropped: the handler returns normally and changes nothing, so no callback
  is invoked. Once \<^verbatim>\<open>start(cb)\<close> has registered a consumer, the same envelope, when it
  carries a payload that \<^verbatim>\<open>b64decode\<close> accepts, adds exactly one invocation: of \<open>cb\<close>,
  with the decoded bytes.
\<close>

theorem consumer_gating:
  assumes "dict_get data ''event'' = Inr (JStr ''media'')" and "input_callback self = None"
  shows "handle_twilio_message data self w = (None, self, w)
    \<and> (\<forall>m payload audio.
          getitem data ''media'' = Inr m \<longrightarrow> getitem m ''payload'' = Inr payload \<longrightarrow>
          b64decode payload = Inr audio \<longrightarrow>
          invoked (snd (snd (handle_twilio_message data
                               (fst (start cb self w)) (snd (start cb self w)))))
            = invoked w @ [(cb_name cb, audio)])"
proof (intro conjI allI impI)
  show "handle_twilio_message data self w = (None, self, w)"
    using assms by (simp add: handle_twilio_message_def)
next
  fix m payload audio
  assume m: "getitem data ''media'' = Inr m" and p: "getitem m ''payload'' = Inr payload"
    and d: "b64decode payload = Inr audio"
  from d obtain s where s: "payload = JStr s"
    using b64decode_Inr_str by blast
  with d have d': "b64decode (JStr s) = Inr audio" by simp
  show "invoked (snd (snd (handle_twilio_message data
                               (fst (start cb self w)) (snd (start cb self w)))))
            = invoked w @ [(cb_name cb, audio)]"
    using assms m p s d'
    by (simp add: handle_twilio_message_def start_def world_ops Let_def del: b64decode.simps)
qed

text \<open>C2 at concrete inputs.\<close>

theorem consumer_gating_witness:
  "handle_twilio_message
      (JObj [(''event'', JStr ''media''), (''media'', JObj [(''payload'', JStr ''AQI='')])])
      init quiet = (None, init, quiet)
   \<and> invoked (snd (snd (handle_twilio_message
        (JObj [(''event'', JStr ''media''), (''media'', JObj [(''payload'', JStr ''AQI='')])])
        (fst (start (consumer 7) init quiet)) (snd (start (consumer 7) init quiet)))))
     = [(7, [1, 2])]"
proof -
  let ?data = "JObj [(''event'', JStr ''media''), (''media'', JObj [(''payload'', JStr ''AQI='')])]"
  have e: "dict_get ?data ''event'' = Inr (JStr ''media'')" by simp
  have n: "input_callback init = None" by (simp add: init_def)
  have m: "getitem ?data ''media'' = Inr (JObj [(''payload'', JStr ''AQI='')])" by simp
  have p: "getitem (JObj [(''payload'', JStr ''AQI='')]) ''payload'' = Inr (JStr ''AQI='')" by simp
  have d: "b64decode (JStr ''AQI='') = Inr [1, 2]" by code_simp
  note g = consumer_gating [OF e n, of quiet "consumer 7"]
  from g have "handle_twilio_message ?data init quiet = (None, init, quiet)" by blast
  moreover from g m p d have "invoked (snd (snd (handle_twilio_message ?data
        (fst (start (consumer 7) init quiet)) (snd (start (consumer 7) init quiet)))))
     = invoked quiet @ [(cb_name (consumer 7), [1, 2])]" by blast
  ultimately show ?thesis by (simp add: quiet_def consumer_def)
qed

text \<open>
  C3, as the code has it. \<^verbatim>\<open>handle_twilio_message\<close> catches nothing. An envelope that
  is not a JSON object, a start envelope without \<^verbatim>\<open>start.streamSid\<close>, and, while a
  consumer is registered, a media envelope without \<^verbatim>\<open>media.payload\<close>, with a payload
  that has no length, or with a payload that \<^verbatim>\<open>b64decode\<close> rejects, each make the
  handler raise the exception to its caller. The object is left as it was, nothing is
  logged and the consumer is not invoked: the world is unchanged, but for the line
  printed before the decoding in the last case.
\<close>

theorem inbound_errors_reach_the_caller:
  "(dict_get data ''event'' = Inl e \<longrightarrow> handle_twilio_message data self w = (Some e, self, w))
   \<and> (dict_get data ''event'' = Inr (JStr ''start'') \<and> getitem data ''start'' = Inl e
        \<longrightarrow> handle_twilio_message data self w = (Some e, self, w))
   \<and> (dict_get data ''event'' = Inr (JStr ''start'') \<and> getitem data ''start'' = Inr s
        \<and> getitem s ''streamSid'' = Inl e
        \<longrightarrow> handle_twilio_message data self w = (Some e, self, w))
   \<and> (dict_get data ''event'' = Inr (JStr ''media'') \<and> input_callback self \<noteq> None
        \<and> getitem data ''media'' = Inl e
        \<longrightarrow> handle_twilio_message data self w = (Some e, self, w))
   \<and> (dict_get data ''event'' = Inr (JStr ''media'') \<and> input_callback self \<noteq> None
        \<and> getitem data ''media'' = Inr m \<and> getitem m ''payload'' = Inl e
        \<longrightarrow> handle_twilio_message data self w = (Some e, self, w))
   \<and> (dict_get data ''event'' = Inr (JStr ''media'') \<and> input_callback self \<noteq> None
        \<and> getitem data ''media'' = Inr m \<and> getitem m ''payload'' = Inr payload
        \<and> py_len payload = Inl e
        \<longrightarrow> handle_twilio_message data self w = (Some e, self, w))
   \<and> (dict_get data ''event'' = Inr (JStr ''media'') \<and> input_callback self \<noteq> None
        \<and> getitem data ''media'' = Inr m \<and> getitem m ''payload'' = Inr payload
        \<and> py_len payload = Inr n \<and> b64decode payload = Inl e
        \<longrightarrow> handle_twilio_message data self w
              = (Some e, self, print (''Media received: '' @ nat_repr n) w))"
  by (simp add: handle_twilio_message_def Let_def del: b64decode.simps)

text \<open>
  C3 as the claim states it fails: a start envelope without \<^verbatim>\<open>start\<close> makes the handler
  raise \<^verbatim>\<open>KeyError\<close>, and Scenario D's payload makes it raise \<^verbatim>\<open>binascii.Error\<close>, with
  nothing logged. A payload that is not valid base64 is not always rejected either:
  the decoder skips characters outside the alphabet, so \<^verbatim>\<open>"AQI=!!"\<close> reaches the
  consumer as two bytes.
\<close>

theorem inbound_handler_raises_counterexample:
  "fst (handle_twilio_message (JObj [(''event'', JStr ''start'')]) init quiet) = Some KeyError
   \<and> handle_twilio_message
         (JObj [(''event'', JStr ''media''),
                (''media'', JObj [(''payload'', JStr ''not-valid-base64!'')])])
         (init\<lparr>input_callback := Some (consumer 0)\<rparr>) quiet
       = (Some BinasciiError, init\<lparr>input_callback := Some (consumer 0)\<rparr>,
          quiet\<lparr>stdout := [''Media received: 17'']\<rparr>)
   \<and> logged (quiet\<lparr>stdout := [''Media received: 17'']\<rparr>) = []
   \<and> invoked (snd (snd (handle_twilio_message
         (JObj [(''event'', JStr ''media''), (''media'', JObj [(''payload'', JStr ''AQI=!!'')])])
         (init\<lparr>input_callback := Some (consumer 0)\<rparr>) quiet)))
       = [(0, [1, 2])]"
proof -
  have n: "nat_repr 17 = ''17''" by code_simp
  have l: "py_len (JStr ''not-valid-base64!'') = Inr 17" by code_simp
  have k: "py_len (JStr ''AQI=!!'') = Inr 6" by code_simp
  show ?thesis
    by (simp add: handle_twilio_message_def init_def quiet_def consumer_def world_ops
        decode_bad decode_lenient n l k Let_def del: b64decode.simps py_len.simps)
qed

text \<open>C3 as the code has it, at concrete inputs.\<close>

theorem inbound_errors_reach_the_caller_witness:
  "handle_twilio_message (JArr []) init quiet = (Some AttributeError, init, quiet)
   \<and> handle_twilio_message (JObj [(''event'', JStr ''start'')]) init quiet
       = (Some KeyError, init, quiet)
   \<and> handle_twilio_message (JObj [(''event'', JStr ''start''), (''start'', JStr ''CA123'')])
         init quiet
       = (Some TypeError, init, quiet)
   \<and> handle_twilio_message (JObj [(''event'', JStr ''media'')])
         \<lparr>input_callback = Some (consumer 0), stream_sid = JNull\<rparr> quiet
       = (Some KeyError, \<lparr>input_callback = Some (consumer 0), stream_sid = JNull\<rparr>, quiet)
   \<and> handle_twilio_message (JObj [(''event'', JStr ''media''), (''media'', JObj [])])
         \<lparr>input_callback = Some (consumer 0), stream_sid = JNull\<rparr> quiet
       = (Some KeyError, \<lparr>input_callback = Some (consumer 0), stream_sid = JNull\<rparr>, quiet)
   \<and> handle_twilio_message
         (JObj [(''event'', JStr ''media''), (''media'', JObj [(''payload'', JInt 5)])])
         \<lparr>input_callback = Some (consumer 0), stream_sid = JNull\<rparr> quiet
       = (Some TypeError, \<lparr>input_callback = Some (consumer 0), stream_sid = JNull\<rparr>, quiet)
   \<and> handle_twilio_message
         (JObj [(''event'', JStr ''media''),
                (''media'', JObj [(''payload'', JStr ''not-valid-base64!'')])])
         \<lparr>input_callback = Some (consumer 0), stream_sid = JNull\<rparr> quiet
       = (Some BinasciiError, \<lparr>input_callback = Some (consumer 0), stream_sid = JNull\<rparr>,
          print (''Media received: '' @ nat_repr 17) quiet)"
proof -
  let ?self = "\<lparr>input_callback = Some (consumer 0), stream_sid = JNull\<rparr>"
  have l: "py_len (JStr ''not-valid-base64!'') = Inr 17" by code_simp
  have "handle_twilio_message (JArr []) init quiet = (Some AttributeError, init, quiet)"
    using inbound_errors_reach_the_caller [of "JArr []" AttributeError init quiet]
    by simp
  moreover have "handle_twilio_message (JObj [(''event'', JStr ''start'')]) init quiet
       = (Some KeyError, init, quiet)"
    using inbound_errors_reach_the_caller [of "JObj [(''event'', JStr ''start'')]" KeyError
        init quiet]
    by simp
  moreover have "handle_twilio_message
        (JObj [(''event'', JStr ''start''), (''start'', JStr ''CA123'')]) init quiet
       = (Some TypeError, init, quiet)"
    using inbound_errors_reach_the_caller
      [of "JObj [(''event'', JStr ''start''), (''start'', JStr ''CA123'')]" TypeError
        init quiet "JStr ''CA123''"]
    by simp
  moreover have "handle_twilio_message (JObj [(''event'', JStr ''media'')]) ?self quiet
       = (Some KeyError, ?self, quiet)"
    using inbound_errors_reach_the_caller [of "JObj [(''event'', JStr ''media'')]" KeyError
        ?self quiet]
    by simp
  moreover have "handle_twilio_message
        (JObj [(''event'', JStr ''media''), (''media'', JObj [])]) ?self quiet
       = (Some KeyError, ?self, quiet)"
    using inbound_errors_reach_the_caller
      [of "JObj [(''event'', JStr ''media''), (''media'', JObj [])]" KeyError
        ?self quiet _ "JObj []"]
    by simp
  moreover have "handle_twilio_message
        (JObj [(''event'', JStr ''media''), (''media'', JObj [(''payload'', JInt 5)])])
        ?self quiet
       = (Some TypeError, ?self, quiet)"
    using inbound_errors_reach_the_caller
      [of "JObj [(''event'', JStr ''media''), (''media'', JObj [(''payload'', JInt 5)])]"
        TypeError ?self quiet _ "JObj [(''payload'', JInt 5)]" "JInt 5"]
    by simp
  moreover have "handle_twilio_message
        (JObj [(''event'', JStr ''media''),
               (''media'', JObj [(''payload'', JStr ''not-valid-base64!'')])])
        ?self quiet
       = (Some BinasciiError, ?self, print (''Media received: '' @ nat_repr 17) quiet)"
    using inbound_errors_reach_the_caller
      [of "JObj [(''event'', JStr ''media''),
                 (''media'', JObj [(''payload'', JStr ''not-valid-base64!'')])]"
        BinasciiError ?self quiet _ "JObj [(''payload'', JStr ''not-valid-base64!'')]"
        "JStr ''not-valid-base64!''" 17]
      l decode_bad
    by (simp del: b64decode.simps py_len.simps)
  ultimately show ?thesis by blast
qed

text \<open>
  C4, as the code has it. When the transport is not connected, both coroutines end
  without an exception and send nothing. In \<^verbatim>\<open>send_audio_to_twilio\<close> every exception
  derived from \<^verbatim>\<open>Exception\<close> that \<^verbatim>\<open>send_text\<close> raises is caught, and nothing is sent.
  In \<^verbatim>\<open>send_clear_message_to_twilio\<close> a \<^verbatim>\<open>WebSocketDisconnect\<close> and a \<^verbatim>\<open>RuntimeError\<close>
  are caught. An exception that does leave a coroutine is held by the future that
  \<^verbatim>\<open>output\<close> and \<^verbatim>\<open>interrupt\<close> have dropped: the two methods return no exception.
\<close>

theorem outbound_task_failures:
  "(application_state w \<noteq> CONNECTED \<longrightarrow>
      fst (send_audio_to_twilio fault self audio w) = None
      \<and> wire (snd (send_audio_to_twilio fault self audio w)) = wire w
      \<and> send_clear_message_to_twilio fault self w = (None, w))
   \<and> (is_Exception e \<longrightarrow>
      fst (send_audio_to_twilio (Some e) self audio w) = None
      \<and> wire (snd (send_audio_to_twilio (Some e) self audio w)) = wire w)
   \<and> (e = WebSocketDisconnect \<or> e = RuntimeError \<longrightarrow>
      send_clear_message_to_twilio (Some e) self w = (None, w))"
  by (auto simp add: send_audio_to_twilio_def send_clear_message_to_twilio_def world_ops Let_def
      simp del: json_dumps.simps b64encode.simps)

text \<open>
  C4 as the claim states it fails for the clear-send coroutine: its \<^verbatim>\<open>except\<close> clause
  names \<^verbatim>\<open>WebSocketDisconnect\<close> and \<^verbatim>\<open>RuntimeError\<close> only, so another exception of
  \<^verbatim>\<open>send_text\<close> (here an \<^verbatim>\<open>OSError\<close>) leaves the coroutine and is the result of its
  future.
\<close>

theorem clear_task_propagates_counterexample:
  "fst (send_clear_message_to_twilio (Some (OtherException ''OSError''))
          \<lparr>input_callback = None, stream_sid = JStr ''CA123''\<rparr> quiet)
     = Some (OtherException ''OSError'')
   \<and> futures (run_next (Some (OtherException ''OSError''))
          \<lparr>input_callback = None, stream_sid = JStr ''CA123''\<rparr> (interrupt quiet))
     = [Some (OtherException ''OSError'')]"
  by (simp add: send_clear_message_to_twilio_def run_next_def quiet_def world_ops
      del: json_dumps.simps)

text \<open>C4 as the code has it, at concrete inputs.\<close>

theorem outbound_task_failures_witness:
  "fst (send_audio_to_twilio None \<lparr>input_callback = None, stream_sid = JStr ''CA123''\<rparr> [1, 2]
          (quiet\<lparr>application_state := DISCONNECTED\<rparr>)) = None
   \<and> wire (snd (send_audio_to_twilio None \<lparr>input_callback = None, stream_sid = JStr ''CA123''\<rparr>
          [1, 2] (quiet\<lparr>application_state := DISCONNECTED\<rparr>))) = []
   \<and> send_clear_message_to_twilio None \<lparr>input_callback = None, stream_sid = JStr ''CA123''\<rparr>
          (quiet\<lparr>application_state := DISCONNECTED\<rparr>)
       = (None, quiet\<lparr>application_state := DISCONNECTED\<rparr>)
   \<and> fst (send_audio_to_twilio (Some (OtherException ''OSError''))
          \<lparr>input_callback = None, stream_sid = JStr ''CA123''\<rparr> [1, 2] quiet) = None
   \<and> send_clear_message_to_twilio (Some RuntimeError)
          \<lparr>input_callback = None, stream_sid = JStr ''CA123''\<rparr> quiet
       = (None, quiet)"
proof -
  let ?self = "\<lparr>input_callback = None, stream_sid = JStr ''CA123''\<rparr>"
  let ?down = "quiet\<lparr>application_state := DISCONNECTED\<rparr>"
  have d: "application_state ?down \<noteq> CONNECTED" by simp
  have q: "wire ?down = []" by (simp add: quiet_def)
  have x: "is_Exception (OtherException ''OSError'')" by simp
  from outbound_task_failures [of ?down None ?self "[1, 2]" RuntimeError] d
  have "fst (send_audio_to_twilio None ?self [1, 2] ?down) = None"
    and "wire (snd (send_audio_to_twilio None ?self [1, 2] ?down)) = wire ?down"
    and "send_clear_message_to_twilio None ?self ?down = (None, ?down)"
    by blast+
  moreover from outbound_task_failures [of quiet None ?self "[1, 2]" "OtherException ''OSError''"] x
  have "fst (send_audio_to_twilio (Some (OtherException ''OSError'')) ?self [1, 2] quiet) = None"
    by blast
  moreover from outbound_task_failures [of quiet None ?self "[1, 2]" RuntimeError]
  have "send_clear_message_to_twilio (Some RuntimeError) ?self quiet = (None, quiet)"
    by blast
  ultimately show ?thesis by (simp only: q simp_thms)
qed

text \<open>
  C5 (no stream, no send). Start from a new adapter and let anything happen except
  the arrival of a start envelope: calls of \<^verbatim>\<open>output\<close> and \<^verbatim>\<open>interrupt\<close> with any bytes,
  the loop running the scheduled coroutines, registrations, other envelopes. Then
  nothing has been sent, and the audio coroutine, for any bytes and whatever the
  transport would do, only logs the warning that no stream SID is available.
\<close>

theorem no_stream_no_send:
  assumes "\<forall>ev \<in> set evs. \<not> receives_start ev"
  shows "wire (snd (run evs (init, w))) = wire w
    \<and> send_audio_to_twilio fault (fst (run evs (init, w))) audio (snd (run evs (init, w)))
        = (None, logger WARNING ''No stream SID available. Audio not sent.''
                   (snd (run evs (init, w))))"
proof -
  have "stream_sid init = JNull" by (simp add: init_def)
  with assms have "stream_sid (fst (run evs (init, w))) = JNull"
    and "wire (snd (run evs (init, w))) = wire w"
    using run_keeps_no_stream [of init evs w] by simp_all
  then show ?thesis
    by (simp add: send_audio_to_twilio_def)
qed

text \<open>C5 at concrete inputs.\<close>

theorem no_stream_no_send_witness:
  "wire (snd (run [Start (consumer 0), Output [1, 2], RunNext None, Interrupt, RunNext None]
                (init, quiet))) = []
   \<and> send_audio_to_twilio None
        (fst (run [Start (consumer 0), Output [1, 2], RunNext None, Interrupt, RunNext None]
                (init, quiet)))
        [1, 2]
        (snd (run [Start (consumer 0), Output [1, 2], RunNext None, Interrupt, RunNext None]
                (init, quiet)))
      = (None, logger WARNING ''No stream SID available. Audio not sent.''
                 (snd (run [Start (consumer 0), Output [1, 2], RunNext None, Interrupt,
                            RunNext None] (init, quiet))))"
proof -
  let ?evs = "[Start (consumer 0), Output [1, 2], RunNext None, Interrupt, RunNext None]"
  have h: "\<forall>ev \<in> set ?evs. \<not> receives_start ev" by simp
  have q: "wire quiet = []" by (simp add: quiet_def)
  from no_stream_no_send [OF h, of quiet None "[1, 2]"] show ?thesis
    by (simp only: q simp_thms)
qed

text \<open>
  C6, as the code has it. \<^verbatim>\<open>stop()\<close> clears the stream id and the consumer. After it, whatever was already
  scheduled on the loop, no sequence of events without a start envelope sends a frame,
  be it audio or clear, and no sequence of events without a new registration invokes a
  consumer (a start envelope does not bring the consumer back, only \<^verbatim>\<open>start(cb)\<close>
  does). A start envelope with a stream id that counts as true re-establishes the
  stream: the next \<^verbatim>\<open>output\<close> sends its frame.
\<close>

theorem stop_makes_inert:
  "stream_sid (stop self) = JNull \<and> input_callback (stop self) = None
   \<and> ((\<forall>ev \<in> set evs. \<not> receives_start ev) \<longrightarrow>
        wire (snd (run evs (stop self, w))) = wire w)
   \<and> ((\<forall>ev \<in> set evs. \<not> registers ev) \<longrightarrow>
        invoked (snd (run evs (stop self, w))) = invoked w)
   \<and> (truthy sid \<longrightarrow>
        wire (snd (run [Receive (JObj [(''event'', JStr ''start''),
                                       (''start'', JObj [(''streamSid'', sid)])]),
                        Output audio, RunNext None]
                    (stop self, w\<lparr>application_state := CONNECTED, pending := []\<rparr>)))
        = wire w @ [json_dumps (JObj [(''event'', JStr ''media''), (''streamSid'', sid),
                                      (''media'', JObj [(''payload'', JStr (b64encode audio))])])])"
proof -
  have s: "stream_sid (stop self) = JNull" and c: "input_callback (stop self) = None"
    by (simp_all add: stop_def)
  from s have "(\<forall>ev \<in> set evs. \<not> receives_start ev) \<longrightarrow>
        wire (snd (run evs (stop self, w))) = wire w"
    using run_keeps_no_stream [of "stop self" evs w] by blast
  moreover from c have "(\<forall>ev \<in> set evs. \<not> registers ev) \<longrightarrow>
        invoked (snd (run evs (stop self, w))) = invoked w"
    using run_keeps_no_consumer [of "stop self" evs w] by blast
  ultimately show ?thesis
    using s c restart_sends [of sid audio "stop self" w] by blast
qed

text \<open>
  C6 as the claim states it fails in its part on the consumer: what brings the
  consumer back after \<^verbatim>\<open>stop()\<close> is a call of \<^verbatim>\<open>start(cb)\<close>, not a start envelope. After
  \<^verbatim>\<open>stop()\<close> and a new registration, a media envelope invokes the new consumer although
  no start envelope has arrived.
\<close>

theorem stop_then_register_counterexample:
  "\<not> receives_start Stop \<and> \<not> receives_start (Start (consumer 2))
   \<and> \<not> receives_start (Receive (JObj [(''event'', JStr ''media''),
                                        (''media'', JObj [(''payload'', JStr ''AQI='')])]))
   \<and> invoked quiet = []
   \<and> invoked (snd (run [Stop, Start (consumer 2),
                        Receive (JObj [(''event'', JStr ''media''),
                                       (''media'', JObj [(''payload'', JStr ''AQI='')])])]
         (\<lparr>input_callback = Some (consumer 1), stream_sid = JStr ''CA123''\<rparr>, quiet)))
       = [(2, [1, 2])]"
proof -
  have d: "b64decode (JStr ''AQI='') = Inr [1, 2]" by code_simp
  have l: "py_len (JStr ''AQI='') = Inr 4" by code_simp
  show ?thesis
    by (simp add: is_start_envelope_def handle_twilio_message_def start_def stop_def quiet_def
        consumer_def world_ops d l Let_def del: b64decode.simps py_len.simps)
qed

text \<open>C6 as the code has it, at concrete inputs.\<close>

theorem stop_makes_inert_witness:
  "stream_sid (stop \<lparr>input_callback = Some (consumer 1), stream_sid = JStr ''CA123''\<rparr>) = JNull
   \<and> input_callback (stop \<lparr>input_callback = Some (consumer 1), stream_sid = JStr ''CA123''\<rparr>)
       = None
   \<and> wire (snd (run [Output [1, 2], RunNext None, Interrupt, RunNext None, Start (consumer 2),
                     Receive (JObj [(''event'', JStr ''media''),
                                    (''media'', JObj [(''payload'', JStr ''AQI='')])])]
         (stop \<lparr>input_callback = Some (consumer 1), stream_sid = JStr ''CA123''\<rparr>, quiet)))
       = []
   \<and> invoked (snd (run [Receive (JObj [(''event'', JStr ''start''),
                                       (''start'', JObj [(''streamSid'', JStr ''CA999'')])]),
                        Receive (JObj [(''event'', JStr ''media''),
                                       (''media'', JObj [(''payload'', JStr ''AQI='')])])]
         (stop \<lparr>input_callback = Some (consumer 1), stream_sid = JStr ''CA123''\<rparr>, quiet)))
       = []
   \<and> wire (snd (run [Receive (JObj [(''event'', JStr ''start''),
                                     (''start'', JObj [(''streamSid'', JStr ''CA999'')])]),
                     Output [1, 2], RunNext None]
         (stop \<lparr>input_callback = Some (consumer 1), stream_sid = JStr ''CA123''\<rparr>,
          quiet\<lparr>application_state := CONNECTED, pending := []\<rparr>)))
       = [json_dumps (JObj [(''event'', JStr ''media''), (''streamSid'', JStr ''CA999''),
                            (''media'', JObj [(''payload'', JStr (b64encode [1, 2]))])])]"
proof -
  let ?self = "\<lparr>input_callback = Some (consumer 1), stream_sid = JStr ''CA123''\<rparr>"
  let ?media = "JObj [(''event'', JStr ''media''), (''media'', JObj [(''payload'', JStr ''AQI='')])]"
  let ?start = "JObj [(''event'', JStr ''start''), (''start'', JObj [(''streamSid'', JStr ''CA999'')])]"
  let ?evs1 = "[Output [1, 2], RunNext None, Interrupt, RunNext None, Start (consumer 2),
                Receive ?media]"
  let ?evs2 = "[Receive ?start, Receive ?media]"
  have h1: "\<forall>ev \<in> set ?evs1. \<not> receives_start ev"
    by (simp add: is_start_envelope_def)
  have h2: "\<forall>ev \<in> set ?evs2. \<not> registers ev"
    by simp
  have h3: "truthy (JStr ''CA999'')" by simp
  have q: "wire quiet = []" "invoked quiet = []" by (simp_all add: quiet_def)
  from stop_makes_inert [of ?self ?evs1 quiet "JStr ''CA999''" "[1, 2]"] h1 h3
  have a: "stream_sid (stop ?self) = JNull" "input_callback (stop ?self) = None"
    "wire (snd (run ?evs1 (stop ?self, quiet))) = wire quiet"
    "wire (snd (run [Receive ?start, Output [1, 2], RunNext None]
         (stop ?self, quiet\<lparr>application_state := CONNECTED, pending := []\<rparr>)))
       = wire quiet @ [json_dumps (JObj [(''event'', JStr ''media''), (''streamSid'', JStr ''CA999''),
                            (''media'', JObj [(''payload'', JStr (b64encode [1, 2]))])])]"
    by blast+
  from stop_makes_inert [of ?self ?evs2 quiet "JStr ''CA999''" "[1, 2]"] h2
  have b: "invoked (snd (run ?evs2 (stop ?self, quiet))) = invoked quiet"
    by blast
  from a b show ?thesis by (simp only: q append_Nil simp_thms)
qed

text \<open>
  C7 (Scenario B). In the state Scenario A ends in, a call \<^verbatim>\<open>interrupt()\<close>, once the loop
  has run the scheduled coroutine and \<^verbatim>\<open>send_text\<close> has succeeded, adds exactly one frame
  to the wire: the serialisation of the JSON object with \<^verbatim>\<open>event\<close> \<^verbatim>\<open>"clear"\<close> and
  \<^verbatim>\<open>streamSid\<close> \<^verbatim>\<open>"CA123"\<close>.
\<close>

theorem scenario_B_clear_frame:
  "wire (snd (run [Interrupt, RunNext None]
        (run [Receive (JObj [(''event'', JStr ''start''),
                             (''start'', JObj [(''streamSid'', JStr ''CA123'')])]),
              Output [1, 2], RunNext None]
           (self, w\<lparr>application_state := CONNECTED, pending := []\<rparr>))))
   = wire (snd (run [Receive (JObj [(''event'', JStr ''start''),
                                    (''start'', JObj [(''streamSid'', JStr ''CA123'')])]),
                     Output [1, 2], RunNext None]
                 (self, w\<lparr>application_state := CONNECTED, pending := []\<rparr>)))
     @ [json_dumps (JObj [(''event'', JStr ''clear''), (''streamSid'', JStr ''CA123'')])]
   \<and> json_dumps (JObj [(''event'', JStr ''clear''), (''streamSid'', JStr ''CA123'')])
     = ''{\"event\": \"clear\", \"streamSid\": \"CA123\"}''"
  by (simp add: handle_twilio_message_def run_next_def send_audio_to_twilio_def
      send_clear_message_to_twilio_def world_ops b64_AQI clear_text
      del: json_dumps.simps b64encode.simps)

text \<open>
  C8. For every byte sequence \<open>b\<close>, decoding the encoding of \<open>b\<close> gives \<open>b\<close> back:
  \<^verbatim>\<open>base64.b64decode\<close>, as the inbound handler applies it to a payload, undoes
  \<^verbatim>\<open>base64.b64encode(audio).decode("utf-8")\<close>, as the outbound coroutine builds the
  payload. The encoder is a total function with no error result, and the decoder's
  result on its output is a value (\<open>Inr\<close>), never an exception.
\<close>

theorem codec_round_trip: "b64decode (JStr (b64encode b)) = Inr b"
  by (simp add: b64encode_ascii a2b_base64_def loop_encode)

text \<open>
  C10. An envelope whose \<^verbatim>\<open>event\<close> is neither \<^verbatim>\<open>"start"\<close> nor \<^verbatim>\<open>"media"\<close> (a stop
  envelope, an unknown kind, an envelope with no \<^verbatim>\<open>event\<close> at all) is handled without
  an exception and changes neither the object nor the world: the stream id and the
  consumer stay, and only a call of \<^verbatim>\<open>stop()\<close> clears them.
\<close>

theorem other_events_leave_state:
  assumes "dict_get data ''event'' = Inr ev" and "ev \<noteq> JStr ''start''" and "ev \<noteq> JStr ''media''"
  shows "handle_twilio_message data self w = (None, self, w)"
  using assms by (simp add: handle_twilio_message_def)

text \<open>C10 at concrete inputs.\<close>

theorem other_events_leave_state_witness:
  "dict_get (JObj [(''event'', JStr ''stop'')]) ''event'' = Inr (JStr ''stop'')
   \<and> JStr ''stop'' \<noteq> JStr ''start'' \<and> JStr ''stop'' \<noteq> JStr ''media''
   \<and> handle_twilio_message (JObj [(''event'', JStr ''stop'')])
         \<lparr>input_callback = Some (consumer 0), stream_sid = JStr ''CA123''\<rparr> quiet
       = (None, \<lparr>input_callback = Some (consumer 0), stream_sid = JStr ''CA123''\<rparr>, quiet)"
  using other_events_leave_state [of "JObj [(''event'', JStr ''stop'')]" "JStr ''stop''"
      "\<lparr>input_callback = Some (consumer 0), stream_sid = JStr ''CA123''\<rparr>" quiet]
  by simp

end
